theory Spec2Isabelle
  imports Main "HOL-Library.Sublist"
begin

section \<open>Data model\<close>

text \<open>
  The program is \<^verbatim>\<open>src/hands_off/main2.py\<close>: a module body that reads the API key, a
  session-start handler \<^verbatim>\<open>start\<close> and a message handler \<^verbatim>\<open>main\<close>.

  Python's \<^verbatim>\<open>str\<close> is modelled by \<open>string\<close>. The few characters of the source outside
  ASCII (the emoji that open its literals) stand as their UTF-8 bytes; nothing below counts
  the length of a string, and concatenation and prefixes are the same in both readings.
\<close>

text \<open>\<^verbatim>\<open>AsyncOpenAI(api_key=..., base_url=...)\<close>\<close>

record async_openai =
  api_key :: string
  base_url :: string

text \<open>\<^verbatim>\<open>OpenAIChatCompletionsModel(model=..., openai_client=...)\<close>\<close>

record chat_model =
  model_name :: string
  openai_client :: async_openai

text \<open>\<^verbatim>\<open>RunConfig(model=..., model_provider=..., tracing_disabled=...)\<close>\<close>

record run_config =
  cfg_model :: chat_model
  model_provider :: async_openai
  tracing_disabled :: bool

text \<open>
  \<^verbatim>\<open>Agent(name, instructions, model, handoffs)\<close>. An element of \<^verbatim>\<open>handoffs\<close> is
  \<^verbatim>\<open>handoff(a, on_handoff=lambda ctx: on_handoff(b, ctx))\<close>: the delegate \<open>a\<close> and a closure
  whose only free variable is the agent \<open>b\<close> that it passes to \<^verbatim>\<open>on_handoff\<close>. The closure
  is kept as that agent (\<open>notifies\<close>).
\<close>

datatype agent =
  Agent (name: string) (instructions: string) (model: chat_model) (handoffs: "handoff list")
and handoff =
  Handoff (target: agent) (notifies: agent)

text \<open>An element of the chat history: \<^verbatim>\<open>{"role": ..., "content": ...}\<close>.\<close>

datatype role = User | Assistant

datatype chat_entry = Entry (role: role) (content: string)

text \<open>
  \<^verbatim>\<open>cl.Message(content=..., author=...)\<close>; \<open>None\<close> is the author left to the
  framework's default.
\<close>

record ui_message =
  msg_content :: string
  msg_author :: "string option"

text \<open>
  An exception, kept as the text that \<^verbatim>\<open>str(e)\<close> gives: the \<^verbatim>\<open>ValueError\<close> of the
  module body, or any other exception.
\<close>

datatype exn = ValueError string | Exception string

fun str_exn :: "exn \<Rightarrow> string" where
  "str_exn (ValueError d) = d"
| "str_exn (Exception d) = d"

text \<open>
  A line written by \<^verbatim>\<open>print\<close>. The success line of the handler interpolates the history
  list itself; it is kept with the list, not rendered.
\<close>

datatype log_line =
  Line string
| History_updated "chat_entry list"

text \<open>The effects of the program, in the order in which they happen.\<close>

datatype event =
  Sent nat ui_message
| Updated nat string
| Printed log_line
| Appended nat chat_entry
| Session_set string
| Ran "agent option" "chat_entry list" "run_config option"

text \<open>
  The state the handlers work on. \<^verbatim>\<open>cl.user_session\<close> is a per-session dictionary; the
  program stores under three keys only, each with values of one type, and these are the
  three \<open>session_\<close> fields (\<open>None\<close>: the key is absent, \<^verbatim>\<open>get\<close> returns \<^verbatim>\<open>None\<close>).
  \<^verbatim>\<open>get\<close> returns the stored object itself, and the history is a Python list, mutated in
  place by \<^verbatim>\<open>append\<close>: the session holds the address of a list, the lists live in
  \<open>heap\<close>, and \<open>next_addr\<close> is the address of the next list to be created.
  \<open>ui\<close> is the sequence of messages shown by the chat UI (a message is updated in place,
  at the position where it was sent), \<open>stdout\<close> the printed lines.
\<close>

record world =
  session_agent :: "agent option"
  session_config :: "run_config option"
  session_chat_history :: "nat option"
  heap :: "nat \<Rightarrow> chat_entry list"
  next_addr :: nat
  ui :: "ui_message list"
  stdout :: "log_line list"
  trace :: "event list"

text \<open>
  The external \<^verbatim>\<open>Runner.run(agent, history, run_config=config)\<close>. It is given what the
  handler passes, and answers with the handoffs whose callback it has invoked during the
  run, in order, and then either raises or returns \<^verbatim>\<open>final_output\<close>.
\<close>

type_synonym runner =
  "agent option \<Rightarrow> chat_entry list \<Rightarrow> run_config option \<Rightarrow> handoff list \<times> (exn + string)"

section \<open>Primitive effects\<close>

definition emit :: "event \<Rightarrow> world \<Rightarrow> world" where
  "emit e s = s\<lparr>trace := trace s @ [e]\<rparr>"

text \<open>\<^verbatim>\<open>await m.send()\<close>: the message is shown; the result is its position.\<close>

definition ui_send :: "ui_message \<Rightarrow> world \<Rightarrow> nat \<times> world" where
  "ui_send m s = (length (ui s), emit (Sent (length (ui s)) m) (s\<lparr>ui := ui s @ [m]\<rparr>))"

text \<open>\<^verbatim>\<open>m.content = c; await m.update()\<close> for the message sent at position \<open>i\<close>.\<close>

definition msg_update :: "nat \<Rightarrow> string \<Rightarrow> world \<Rightarrow> world" where
  "msg_update i c s =
     (if i < length (ui s)
      then emit (Updated i c) (s\<lparr>ui := (ui s)[i := (ui s ! i)\<lparr>msg_content := c\<rparr>]\<rparr>)
      else emit (Updated i c) s)"

definition print :: "log_line \<Rightarrow> world \<Rightarrow> world" where
  "print l s = emit (Printed l) (s\<lparr>stdout := stdout s @ [l]\<rparr>)"

text \<open>A list display \<^verbatim>\<open>[]\<close>: a new, empty list object.\<close>

definition new_list :: "world \<Rightarrow> nat \<times> world" where
  "new_list s =
     (next_addr s, s\<lparr>heap := (heap s)(next_addr s := []), next_addr := Suc (next_addr s)\<rparr>)"

text \<open>\<^verbatim>\<open>history.append(e)\<close> on the list at address \<open>a\<close>.\<close>

definition list_append :: "nat \<Rightarrow> chat_entry \<Rightarrow> world \<Rightarrow> world" where
  "list_append a e s = emit (Appended a e) (s\<lparr>heap := (heap s)(a := heap s a @ [e])\<rparr>)"

text \<open>\<^verbatim>\<open>cl.user_session.set("chat_history", history)\<close>\<close>

definition set_chat_history :: "nat \<Rightarrow> world \<Rightarrow> world" where
  "set_chat_history a s = emit (Session_set ''chat_history'') (s\<lparr>session_chat_history := Some a\<rparr>)"

definition set_agent :: "agent \<Rightarrow> world \<Rightarrow> world" where
  "set_agent a s = emit (Session_set ''agent'') (s\<lparr>session_agent := Some a\<rparr>)"

definition set_config :: "run_config \<Rightarrow> world \<Rightarrow> world" where
  "set_config c s = emit (Session_set ''config'') (s\<lparr>session_config := Some c\<rparr>)"

text \<open>The history that the session stores: the list its key points to, if any.\<close>

definition history_of :: "world \<Rightarrow> chat_entry list" where
  "history_of s = (case session_chat_history s of None \<Rightarrow> [] | Some a \<Rightarrow> heap s a)"

section \<open>String constants of the source\<close>

definition cross_mark :: string where
  "cross_mark = [CHR 0xE2, CHR 0x9D, CHR 0x8C]"

definition check_mark :: string where
  "check_mark = [CHR 0xE2, CHR 0x9C, CHR 0x85]"

definition warning_sign :: string where
  "warning_sign = [CHR 0xE2, CHR 0x9A, CHR 0xA0, CHR 0xEF, CHR 0xB8, CHR 0x8F]"

definition arrows :: string where
  "arrows = [CHR 0xF0, CHR 0x9F, CHR 0x94, CHR 0x84]"

definition waving_hand :: string where
  "waving_hand = [CHR 0xF0, CHR 0x9F, CHR 0x91, CHR 0x8B]"

definition thinking_face :: string where
  "thinking_face = [CHR 0xF0, CHR 0x9F, CHR 0xA4, CHR 0x94]"

definition dashes :: string where
  "dashes = ''--------------------------------''"

text \<open>
  \<^verbatim>\<open>str.lower()\<close>, on the ASCII letters; the names of the three agents of the program are
  ASCII.
\<close>

definition lower_char :: "char \<Rightarrow> char" where
  "lower_char c =
     (if (65::nat) \<le> of_char c \<and> of_char c \<le> (90::nat) then char_of (of_char c + (32::nat)) else c)"

definition lower :: "string \<Rightarrow> string" where
  "lower = map lower_char"

section \<open>The module body\<close>

text \<open>
  \<^verbatim>\<open>gemini_api_key = os.getenv("GEMINI_API_KEY")\<close> followed by
  \<^verbatim>\<open>if not gemini_api_key: raise ValueError(...)\<close>. The argument is what \<^verbatim>\<open>os.getenv\<close>
  returns once \<^verbatim>\<open>load_dotenv()\<close> has run; the result is the module's global
  \<^verbatim>\<open>gemini_api_key\<close>. In Python both \<^verbatim>\<open>None\<close> and the empty string are false.
\<close>

definition key_missing_text :: string where
  "key_missing_text =
     cross_mark @ '' GEMINI_API_KEY is not set. Please define it in your .env file.''"

definition module_body :: "string option \<Rightarrow> exn + string" where
  "module_body getenv =
     (case getenv of
        None \<Rightarrow> Inl (ValueError key_missing_text)
      | Some gemini_api_key \<Rightarrow>
          if gemini_api_key = [] then Inl (ValueError key_missing_text)
          else Inr gemini_api_key)"

section \<open>Session start\<close>

definition external_client :: "string \<Rightarrow> async_openai" where
  "external_client gemini_api_key =
     \<lparr>api_key = gemini_api_key,
      base_url = ''https://generativelanguage.googleapis.com/v1beta/openai/''\<rparr>"

definition gemini_model :: "string \<Rightarrow> chat_model" where
  "gemini_model gemini_api_key =
     \<lparr>model_name = ''gemini-2.5-flash'', openai_client = external_client gemini_api_key\<rparr>"

definition config :: "string \<Rightarrow> run_config" where
  "config gemini_api_key =
     \<lparr>cfg_model = gemini_model gemini_api_key,
      model_provider = external_client gemini_api_key,
      tracing_disabled = True\<rparr>"

text \<open>The handoff callback: three printed lines, then a message of author System.\<close>

definition handoff_notice :: "string \<Rightarrow> string" where
  "handoff_notice agent_name =
     arrows @ '' **Handing off to '' @ agent_name @ ''...**'' @ [CHR 0x0A, CHR 0x0A]
     @ ''I'' @ [CHR 0x27] @ ''m transferring your request to our '' @ lower agent_name @ '' ''
     @ ''who will be able to better assist you.''"

definition on_handoff :: "agent \<Rightarrow> world \<Rightarrow> world" where
  "on_handoff agent s =
     (let agent_name = name agent;
          s1 = print (Line dashes) s;
          s2 = print (Line (''Handing off to '' @ agent_name @ ''...'')) s1;
          s3 = print (Line dashes) s2
      in snd (ui_send \<lparr>msg_content = handoff_notice agent_name, msg_author = Some ''System''\<rparr> s3))"

definition billing_agent :: "string \<Rightarrow> agent" where
  "billing_agent gemini_api_key =
     Agent ''Billing Agent'' ''You are a billing agent.'' (gemini_model gemini_api_key) []"

definition refund_agent :: "string \<Rightarrow> agent" where
  "refund_agent gemini_api_key =
     Agent ''Refund Agent'' ''You are a refund agent.'' (gemini_model gemini_api_key) []"

definition triage_agent :: "string \<Rightarrow> agent" where
  "triage_agent gemini_api_key =
     Agent ''Triage Agent'' ''You are a triage agent.'' (gemini_model gemini_api_key)
       [Handoff (billing_agent gemini_api_key) (billing_agent gemini_api_key),
        Handoff (refund_agent gemini_api_key) (refund_agent gemini_api_key)]"

definition welcome_message :: ui_message where
  "welcome_message =
     \<lparr>msg_content =
        waving_hand @ '' Welcome to the Panaversity AI Assistant! How can I help you today?'',
      msg_author = None\<rparr>"

definition start :: "string \<Rightarrow> world \<Rightarrow> world" where
  "start gemini_api_key s =
     (let s1 = set_agent (triage_agent gemini_api_key) s;
          s2 = set_config (config gemini_api_key) s1;
          (empty, s3) = new_list s2;
          s4 = set_chat_history empty s3
      in snd (ui_send welcome_message s4))"

section \<open>The message handler\<close>

definition thinking_message :: ui_message where
  "thinking_message = \<lparr>msg_content = thinking_face @ '' Thinking...'', msg_author = None\<rparr>"

text \<open>
  \<^verbatim>\<open>history = cl.user_session.get("chat_history") or []\<close>: the stored list itself when
  there is one and it is not empty, and a new list otherwise (an empty list is false).
\<close>

definition load_history :: "world \<Rightarrow> nat \<times> world" where
  "load_history s =
     (case session_chat_history s of
        None \<Rightarrow> new_list s
      | Some a \<Rightarrow> if heap s a = [] then new_list s else (a, s))"

text \<open>The callbacks that the runner has invoked during one run.\<close>

definition fire :: "handoff list \<Rightarrow> world \<Rightarrow> world" where
  "fire hs s = fold (\<lambda>h. on_handoff (notifies h)) hs s"

text \<open>
  \<^verbatim>\<open>main(message)\<close>. The \<^verbatim>\<open>try\<close> block is the \<open>Inr\<close> branch, the \<^verbatim>\<open>except Exception\<close>
  block the \<open>Inl\<close> branch. Sending and updating a message are taken not to raise.
\<close>

definition main :: "runner \<Rightarrow> ui_message \<Rightarrow> world \<Rightarrow> world" where
  "main Runner_run message s =
     (let (thinking_msg, s1) = ui_send thinking_message s;
          agent = session_agent s1;
          config = session_config s1;
          (history, s2) = load_history s1;
          s3 = list_append history (Entry User (msg_content message)) s2;
          (fired, result) = Runner_run agent (heap s3 history) config;
          s4 = fire fired (emit (Ran agent (heap s3 history) config) s3)
      in case result of
           Inr response_content \<Rightarrow>
             (let s5 = msg_update thinking_msg response_content s4;
                  s6 = list_append history (Entry Assistant response_content) s5;
                  s7 = set_chat_history history s6
              in print (History_updated (heap s7 history)) s7)
         | Inl e \<Rightarrow>
             (let s5 = msg_update thinking_msg (warning_sign @ '' Error: '' @ str_exn e) s4
              in print (Line (cross_mark @ '' Error: '' @ str_exn e)) s5))"

section \<open>The application\<close>

text \<open>
  The chat framework imports the module and then calls the handlers it has registered:
  \<^verbatim>\<open>start\<close> at a session start, \<^verbatim>\<open>main\<close> at a message. When the module body raises,
  the import fails: no handler exists and nothing of \<^verbatim>\<open>start\<close> runs.
\<close>

definition session_start :: "string option \<Rightarrow> world \<Rightarrow> exn option \<times> world" where
  "session_start getenv s =
     (case module_body getenv of
        Inl e \<Rightarrow> (Some e, s)
      | Inr gemini_api_key \<Rightarrow> (None, start gemini_api_key s))"

datatype ui_event =
  Chat_start
| Chat_message runner ui_message

fun handle :: "string \<Rightarrow> ui_event \<Rightarrow> world \<Rightarrow> world" where
  "handle gemini_api_key Chat_start s = start gemini_api_key s"
| "handle gemini_api_key (Chat_message Runner_run message) s = main Runner_run message s"

fun is_message :: "ui_event \<Rightarrow> bool" where
  "is_message Chat_start = False"
| "is_message (Chat_message Runner_run message) = True"

definition run_events :: "string \<Rightarrow> ui_event list \<Rightarrow> world \<Rightarrow> world" where
  "run_events gemini_api_key evs s = fold (handle gemini_api_key) evs s"

text \<open>The world before anything has happened.\<close>

definition world0 :: world where
  "world0 =
     \<lparr>session_agent = None, session_config = None, session_chat_history = None,
      heap = (\<lambda>a. []), next_addr = 0, ui = [], stdout = [], trace = []\<rparr>"

section \<open>Observations and sample inputs\<close>

text \<open>The keys that \<^verbatim>\<open>cl.user_session.set\<close> has written, read off a sequence of effects.\<close>

definition session_writes :: "event list \<Rightarrow> string list" where
  "session_writes evs = concat (map (\<lambda>ev. case ev of Session_set k \<Rightarrow> [k] | _ \<Rightarrow> []) evs)"

text \<open>
  The list that the session points to has been created: its address is below \<open>next_addr\<close>.
  Every world that the handlers produce has this property.
\<close>

definition allocated :: "world \<Rightarrow> bool" where
  "allocated s = (case session_chat_history s of None \<Rightarrow> True | Some a \<Rightarrow> a < next_addr s)"

text \<open>Three runs of the external runner: one that answers, one that raises, one that hands
  off to the refund agent and then answers.\<close>

definition ok_runner :: runner where
  "ok_runner a h c = ([], Inr ''ok'')"

definition failing_runner :: runner where
  "failing_runner a h c = ([], Inl (Exception ''Connection error.''))"

definition refund_runner :: runner where
  "refund_runner a h c =
     ([Handoff (refund_agent ''key'') (refund_agent ''key'')], Inr ''Your refund is on its way.'')"

definition hello :: ui_message where
  "hello = \<lparr>msg_content = ''hi'', msg_author = Some ''User''\<rparr>"

definition refund_question :: ui_message where
  "refund_question = \<lparr>msg_content = ''What is my refund status?'', msg_author = Some ''User''\<rparr>"

section \<open>The primitive effects, field by field\<close>

lemma emit_fields [simp]:
  "session_agent (emit e s) = session_agent s"
  "session_config (emit e s) = session_config s"
  "session_chat_history (emit e s) = session_chat_history s"
  "heap (emit e s) = heap s"
  "next_addr (emit e s) = next_addr s"
  "ui (emit e s) = ui s"
  "stdout (emit e s) = stdout s"
  "trace (emit e s) = trace s @ [e]"
  by (simp_all add: emit_def)

lemma print_fields [simp]:
  "session_agent (print l s) = session_agent s"
  "session_config (print l s) = session_config s"
  "session_chat_history (print l s) = session_chat_history s"
  "heap (print l s) = heap s"
  "next_addr (print l s) = next_addr s"
  "ui (print l s) = ui s"
  "stdout (print l s) = stdout s @ [l]"
  "trace (print l s) = trace s @ [Printed l]"
  by (simp_all add: print_def)

lemma ui_send_fields [simp]:
  "fst (ui_send m s) = length (ui s)"
  "session_agent (snd (ui_send m s)) = session_agent s"
  "session_config (snd (ui_send m s)) = session_config s"
  "session_chat_history (snd (ui_send m s)) = session_chat_history s"
  "heap (snd (ui_send m s)) = heap s"
  "next_addr (snd (ui_send m s)) = next_addr s"
  "ui (snd (ui_send m s)) = ui s @ [m]"
  "stdout (snd (ui_send m s)) = stdout s"
  "trace (snd (ui_send m s)) = trace s @ [Sent (length (ui s)) m]"
  by (simp_all add: ui_send_def)

lemma msg_update_fields [simp]:
  "session_agent (msg_update i c s) = session_agent s"
  "session_config (msg_update i c s) = session_config s"
  "session_chat_history (msg_update i c s) = session_chat_history s"
  "heap (msg_update i c s) = heap s"
  "next_addr (msg_update i c s) = next_addr s"
  "stdout (msg_update i c s) = stdout s"
  "trace (msg_update i c s) = trace s @ [Updated i c]"
  "length (ui (msg_update i c s)) = length (ui s)"
  by (simp_all add: msg_update_def)

lemma msg_update_content:
  "i < length (ui s) \<Longrightarrow> msg_content (ui (msg_update i c s) ! i) = c"
  by (simp add: msg_update_def)

lemma list_append_fields [simp]:
  "session_agent (list_append a e s) = session_agent s"
  "session_config (list_append a e s) = session_config s"
  "session_chat_history (list_append a e s) = session_chat_history s"
  "heap (list_append a e s) = (heap s)(a := heap s a @ [e])"
  "next_addr (list_append a e s) = next_addr s"
  "ui (list_append a e s) = ui s"
  "stdout (list_append a e s) = stdout s"
  "trace (list_append a e s) = trace s @ [Appended a e]"
  by (simp_all add: list_append_def)

lemma set_chat_history_fields [simp]:
  "session_agent (set_chat_history a s) = session_agent s"
  "session_config (set_chat_history a s) = session_config s"
  "session_chat_history (set_chat_history a s) = Some a"
  "heap (set_chat_history a s) = heap s"
  "next_addr (set_chat_history a s) = next_addr s"
  "ui (set_chat_history a s) = ui s"
  "stdout (set_chat_history a s) = stdout s"
  "trace (set_chat_history a s) = trace s @ [Session_set ''chat_history'']"
  by (simp_all add: set_chat_history_def)

lemma on_handoff_fields [simp]:
  "session_agent (on_handoff a s) = session_agent s"
  "session_config (on_handoff a s) = session_config s"
  "session_chat_history (on_handoff a s) = session_chat_history s"
  "heap (on_handoff a s) = heap s"
  "next_addr (on_handoff a s) = next_addr s"
  by (simp_all add: on_handoff_def Let_def)

lemma on_handoff_ui:
  "ui (on_handoff a s) =
     ui s @ [\<lparr>msg_content = handoff_notice (name a), msg_author = Some ''System''\<rparr>]"
  by (simp add: on_handoff_def Let_def)

lemma on_handoff_stdout:
  "stdout (on_handoff a s) =
     stdout s @ [Line dashes, Line (''Handing off to '' @ name a @ ''...''), Line dashes]"
  by (simp add: on_handoff_def Let_def)

lemma on_handoff_trace:
  "trace (on_handoff a s) =
     trace s @ [Printed (Line dashes), Printed (Line (''Handing off to '' @ name a @ ''...'')),
       Printed (Line dashes),
       Sent (length (ui s)) \<lparr>msg_content = handoff_notice (name a), msg_author = Some ''System''\<rparr>]"
  by (simp add: on_handoff_def Let_def)

lemma fire_fields [simp]:
  "session_agent (fire hs s) = session_agent s"
  "session_config (fire hs s) = session_config s"
  "session_chat_history (fire hs s) = session_chat_history s"
  "heap (fire hs s) = heap s"
  "next_addr (fire hs s) = next_addr s"
  by (induction hs arbitrary: s; simp add: fire_def)+

lemma fire_ui: "prefix (ui s) (ui (fire hs s))"
proof (induction hs arbitrary: s)
  case Nil
  show ?case by (simp add: fire_def)
next
  case (Cons h hs)
  have "prefix (ui s) (ui (on_handoff (notifies h) s))"
    by (simp add: on_handoff_ui)
  moreover have "prefix (ui (on_handoff (notifies h) s)) (ui (fire hs (on_handoff (notifies h) s)))"
    by (rule Cons.IH)
  ultimately have "prefix (ui s) (ui (fire hs (on_handoff (notifies h) s)))"
    by (rule prefix_order.trans)
  then show ?case by (simp add: fire_def)
qed

lemma fire_trace: "prefix (trace s) (trace (fire hs s))"
proof (induction hs arbitrary: s)
  case Nil
  show ?case by (simp add: fire_def)
next
  case (Cons h hs)
  have "prefix (trace s) (trace (on_handoff (notifies h) s))"
    by (simp add: on_handoff_trace)
  moreover have "prefix (trace (on_handoff (notifies h) s)) (trace (fire hs (on_handoff (notifies h) s)))"
    by (rule Cons.IH)
  ultimately have "prefix (trace s) (trace (fire hs (on_handoff (notifies h) s)))"
    by (rule prefix_order.trans)
  then show ?case by (simp add: fire_def)
qed

lemma load_history_fields [simp]:
  "session_agent (snd (load_history s)) = session_agent s"
  "session_config (snd (load_history s)) = session_config s"
  "session_chat_history (snd (load_history s)) = session_chat_history s"
  "ui (snd (load_history s)) = ui s"
  "stdout (snd (load_history s)) = stdout s"
  "trace (snd (load_history s)) = trace s"
  by (simp_all add: load_history_def new_list_def split: option.splits)

lemma load_history_heap:
  "heap (snd (load_history s)) (fst (load_history s)) = history_of s"
  by (simp add: load_history_def new_list_def history_of_def split: option.splits)

lemma history_of_ui_send [simp]: "history_of (snd (ui_send m s)) = history_of s"
  by (simp add: history_of_def split: option.splits)

lemma main_success_history:
  assumes "snd (R (session_agent s) (history_of s @ [Entry User (msg_content m)]) (session_config s)) = Inr out"
  shows "history_of (main R m s) = history_of s @ [Entry User (msg_content m), Entry Assistant out]"
proof -
  let ?s1 = "snd (ui_send thinking_message s)"
  have h: "heap (snd (load_history ?s1)) (fst (load_history ?s1)) = history_of s"
    using load_history_heap [of ?s1] by simp
  show ?thesis
    using assms h
    by (simp add: main_def Let_def case_prod_beta history_of_def [where s = "print l t" for l t]
        split: sum.splits)
qed

lemma fire_ui_length: "length (ui s) \<le> length (ui (fire hs s))"
  using fire_ui [of s hs] by (rule prefix_length_le)

lemma fire_ui_nth: "i < length (ui s) \<Longrightarrow> ui (fire hs s) ! i = ui s ! i"
  using fire_ui [of s hs] by (auto simp: prefix_def nth_append)

lemma session_writes_append [simp]:
  "session_writes (xs @ ys) = session_writes xs @ session_writes ys"
  by (simp add: session_writes_def)

lemma session_writes_simps [simp]:
  "session_writes [] = []"
  "session_writes (Session_set k # evs) = k # session_writes evs"
  "session_writes (Sent i m # evs) = session_writes evs"
  "session_writes (Updated i c # evs) = session_writes evs"
  "session_writes (Printed l # evs) = session_writes evs"
  "session_writes (Appended a e # evs) = session_writes evs"
  "session_writes (Ran ag h cfg # evs) = session_writes evs"
  by (simp_all add: session_writes_def)

lemma fire_session_writes [simp]:
  "session_writes (trace (fire hs s)) = session_writes (trace s)"
  by (induction hs arbitrary: s) (simp_all add: fire_def on_handoff_trace)

lemma fire_stdout: "prefix (stdout s) (stdout (fire hs s))"
proof (induction hs arbitrary: s)
  case Nil
  show ?case by (simp add: fire_def)
next
  case (Cons h hs)
  have "prefix (stdout s) (stdout (on_handoff (notifies h) s))"
    by (simp add: on_handoff_stdout)
  moreover have "prefix (stdout (on_handoff (notifies h) s)) (stdout (fire hs (on_handoff (notifies h) s)))"
    by (rule Cons.IH)
  ultimately have "prefix (stdout s) (stdout (fire hs (on_handoff (notifies h) s)))"
    by (rule prefix_order.trans)
  then show ?case by (simp add: fire_def)
qed

lemma turn_heap:
  "heap (snd (load_history (snd (ui_send thinking_message s))))
     (fst (load_history (snd (ui_send thinking_message s)))) = history_of s"
  using load_history_heap [of "snd (ui_send thinking_message s)"] by simp

lemma load_history_ui_send [simp]:
  "fst (load_history (snd (ui_send m s))) = fst (load_history s)"
  "heap (snd (load_history (snd (ui_send m s)))) = heap (snd (load_history s))"
  by (simp_all add: load_history_def new_list_def split: option.splits)

lemma main_failure_state:
  assumes "snd (R (session_agent s) (history_of s @ [Entry User (msg_content m)]) (session_config s)) = Inl e"
  shows "session_chat_history (main R m s) = session_chat_history s"
    and "heap (main R m s) =
           (heap (snd (load_history s)))
             (fst (load_history s) := history_of s @ [Entry User (msg_content m)])"
  using assms turn_heap [of s]
  by (simp_all add: main_def Let_def case_prod_beta)

lemma main_failure_nonempty:
  assumes "snd (R (session_agent s) (history_of s @ [Entry User (msg_content m)]) (session_config s)) = Inl e"
    and "history_of s \<noteq> []"
  shows "history_of (main R m s) = history_of s @ [Entry User (msg_content m)]"
  using assms(2)
  by (simp add: history_of_def main_failure_state [where R = R and s = s and m = m and e = e, OF assms(1)] load_history_def split: option.splits)

lemma main_failure_empty:
  assumes "snd (R (session_agent s) (history_of s @ [Entry User (msg_content m)]) (session_config s)) = Inl e"
    and "history_of s = []" and "allocated s"
  shows "history_of (main R m s) = []"
  using assms(2,3)
  by (auto simp add: history_of_def main_failure_state [where R = R and s = s and m = m and e = e, OF assms(1)] load_history_def new_list_def allocated_def
        split: option.splits)

lemma main_failure_between:
  assumes "snd (R (session_agent s) (history_of s @ [Entry User (msg_content m)]) (session_config s)) = Inl e"
  shows "prefix (history_of s) (history_of (main R m s))"
    and "prefix (history_of (main R m s)) (history_of s @ [Entry User (msg_content m)])"
  by (simp_all add: history_of_def main_failure_state [where R = R and s = s and m = m and e = e, OF assms(1)] load_history_def new_list_def
        split: option.splits)

lemma set_agent_fields [simp]:
  "session_agent (set_agent a s) = Some a"
  "session_config (set_agent a s) = session_config s"
  "session_chat_history (set_agent a s) = session_chat_history s"
  "heap (set_agent a s) = heap s"
  "next_addr (set_agent a s) = next_addr s"
  "ui (set_agent a s) = ui s"
  "stdout (set_agent a s) = stdout s"
  "trace (set_agent a s) = trace s @ [Session_set ''agent'']"
  by (simp_all add: set_agent_def)

lemma set_config_fields [simp]:
  "session_agent (set_config c s) = session_agent s"
  "session_config (set_config c s) = Some c"
  "session_chat_history (set_config c s) = session_chat_history s"
  "heap (set_config c s) = heap s"
  "next_addr (set_config c s) = next_addr s"
  "ui (set_config c s) = ui s"
  "stdout (set_config c s) = stdout s"
  "trace (set_config c s) = trace s @ [Session_set ''config'']"
  by (simp_all add: set_config_def)

lemma new_list_fields [simp]:
  "fst (new_list s) = next_addr s"
  "session_agent (snd (new_list s)) = session_agent s"
  "session_config (snd (new_list s)) = session_config s"
  "session_chat_history (snd (new_list s)) = session_chat_history s"
  "heap (snd (new_list s)) = (heap s)(next_addr s := [])"
  "next_addr (snd (new_list s)) = Suc (next_addr s)"
  "ui (snd (new_list s)) = ui s"
  "stdout (snd (new_list s)) = stdout s"
  "trace (snd (new_list s)) = trace s"
  by (simp_all add: new_list_def)

lemma start_fields:
  "session_agent (start k s) = Some (triage_agent k)"
  "session_config (start k s) = Some (config k)"
  "session_chat_history (start k s) = Some (next_addr s)"
  "heap (start k s) = (heap s)(next_addr s := [])"
  "next_addr (start k s) = Suc (next_addr s)"
  "ui (start k s) = ui s @ [welcome_message]"
  "stdout (start k s) = stdout s"
  by (simp_all add: start_def Let_def case_prod_beta)

lemma start_history: "history_of (start k s) = []"
  by (simp add: history_of_def start_fields)

lemma start_allocated: "allocated (start k s)"
  by (simp add: allocated_def start_fields)

lemma main_fields:
  "session_agent (main R m s) = session_agent s"
  "session_config (main R m s) = session_config s"
  by (simp_all add: main_def Let_def case_prod_beta split: sum.splits)

lemma main_success_ui:
  assumes "snd (R (session_agent s) (history_of s @ [Entry User (msg_content m)]) (session_config s)) = Inr out"
  shows "msg_content (ui (main R m s) ! length (ui s)) = out"
  using assms turn_heap [of s]
  by (simp add: main_def Let_def case_prod_beta msg_update_content less_le_trans [OF _ fire_ui_length])

lemma main_failure_ui:
  assumes "snd (R (session_agent s) (history_of s @ [Entry User (msg_content m)]) (session_config s)) = Inl e"
  shows "msg_content (ui (main R m s) ! length (ui s)) = warning_sign @ '' Error: '' @ str_exn e"
  using assms turn_heap [of s]
  by (simp add: main_def Let_def case_prod_beta msg_update_content less_le_trans [OF _ fire_ui_length])

lemma main_failure_stdout:
  assumes "snd (R (session_agent s) (history_of s @ [Entry User (msg_content m)]) (session_config s)) = Inl e"
  shows "\<exists>ls. stdout (main R m s) = stdout s @ ls @ [Line (cross_mark @ '' Error: '' @ str_exn e)]"
proof -
  let ?s3 = "emit (Ran (session_agent s) (history_of s @ [Entry User (msg_content m)]) (session_config s))
     (list_append (fst (load_history s)) (Entry User (msg_content m))
        (snd (load_history (snd (ui_send thinking_message s)))))"
  let ?hs = "fst (R (session_agent s) (history_of s @ [Entry User (msg_content m)]) (session_config s))"
  obtain ls where "stdout (fire ?hs ?s3) = stdout ?s3 @ ls"
    using fire_stdout [of ?s3 ?hs] by (auto simp: prefix_def)
  then show ?thesis using assms turn_heap [of s]
    by (simp add: main_def Let_def case_prod_beta)
qed

lemma main_trace:
  "prefix (trace s @ [Sent (length (ui s)) thinking_message,
       Appended (fst (load_history s)) (Entry User (msg_content m)),
       Ran (session_agent s) (history_of s @ [Entry User (msg_content m)]) (session_config s)])
     (trace (main R m s))"
proof -
  let ?s3 = "emit (Ran (session_agent s) (history_of s @ [Entry User (msg_content m)]) (session_config s))
     (list_append (fst (load_history s)) (Entry User (msg_content m))
        (snd (load_history (snd (ui_send thinking_message s)))))"
  let ?hs = "fst (R (session_agent s) (history_of s @ [Entry User (msg_content m)]) (session_config s))"
  obtain es where "trace (fire ?hs ?s3) = trace ?s3 @ es"
    using fire_trace [of ?s3 ?hs] by (auto simp: prefix_def)
  then show ?thesis using turn_heap [of s]
    by (simp add: main_def Let_def case_prod_beta split: sum.splits)
qed

lemma main_session_writes:
  "session_writes (trace (main R m s)) =
     session_writes (trace s) @
     (case snd (R (session_agent s) (history_of s @ [Entry User (msg_content m)]) (session_config s)) of
        Inl e \<Rightarrow> [] | Inr out \<Rightarrow> [''chat_history''])"
  using turn_heap [of s]
  by (simp add: main_def Let_def case_prod_beta split: sum.splits)

lemma main_success_session:
  assumes "snd (R (session_agent s) (history_of s @ [Entry User (msg_content m)]) (session_config s)) = Inr out"
  shows "session_chat_history (main R m s) = Some (fst (load_history s))"
  using assms turn_heap [of s]
  by (simp add: main_def Let_def case_prod_beta)

lemma main_prefix: "prefix (history_of s) (history_of (main R m s))"
proof (cases "snd (R (session_agent s) (history_of s @ [Entry User (msg_content m)]) (session_config s))")
  case (Inl e)
  then show ?thesis by (rule main_failure_between(1))
next
  case (Inr out)
  then show ?thesis by (simp add: main_success_history)
qed

lemma run_events_Cons [simp]:
  "run_events k (ev # evs) s = run_events k evs (handle k ev s)"
  "run_events k [] s = s"
  by (simp_all add: run_events_def)

lemma run_events_prefix:
  "list_all is_message evs \<Longrightarrow> prefix (history_of s) (history_of (run_events k evs s))"
proof (induction evs arbitrary: s)
  case Nil
  show ?case by simp
next
  case (Cons ev evs)
  from Cons.prems obtain R m where ev: "ev = Chat_message R m"
    by (cases ev) simp_all
  have "prefix (history_of s) (history_of (main R m s))"
    by (rule main_prefix)
  moreover have "prefix (history_of (main R m s)) (history_of (run_events k evs (main R m s)))"
    using Cons.prems by (intro Cons.IH) simp
  ultimately show ?case
    unfolding ev by (simp add: prefix_order.trans)
qed

lemma main_allocated: "allocated s \<Longrightarrow> allocated (main R m s)"
proof (cases "snd (R (session_agent s) (history_of s @ [Entry User (msg_content m)]) (session_config s))")
  case (Inl e)
  assume "allocated s"
  moreover have "next_addr s \<le> next_addr (main R m s)"
    by (simp add: main_def Let_def case_prod_beta load_history_def split: sum.splits option.splits)
  ultimately show ?thesis
    using main_failure_state(1) [where R = R and s = s and m = m and e = e, OF Inl]
    by (auto simp: allocated_def split: option.splits)
next
  case (Inr out)
  have "fst (load_history s) < next_addr (main R m s) \<or>
        (session_chat_history s = Some (fst (load_history s)) \<and> next_addr (main R m s) = next_addr s)"
    by (simp add: main_def Let_def case_prod_beta load_history_def split: sum.splits option.splits)
  moreover assume "allocated s"
  ultimately show ?thesis
    using main_success_session [where R = R and s = s and m = m and out = out, OF Inr]
    by (auto simp: allocated_def)
qed

section \<open>The claims\<close>

text \<open>
  Two assumptions on the collaborators stand behind every statement about \<open>main\<close>: the
  runner does not mutate the list it is given, and sending or updating a UI message does
  not raise. A turn \<^emph>\<open>succeeds\<close> when the runner's answer is \<open>Inr\<close>, and \<^emph>\<open>fails\<close> when it
  is \<open>Inl\<close>.
\<close>

text \<open>
  C1. The claim: in every turn in which the runner raises, the history stored in the session
  grows by exactly one entry, the user entry. The code does this only when the stored list
  is not empty (lemma \<open>main_failure_nonempty\<close>): then \<^verbatim>\<open>history\<close> is the stored list itself
  and \<^verbatim>\<open>append\<close> changes it in place. When the stored list is empty, as it is after every
  session start, \<^verbatim>\<open>or []\<close> makes a new list, the user entry goes there, and the
  \<^verbatim>\<open>except\<close> branch never stores it (lemma \<open>main_failure_empty\<close>). The theorem runs the
  first turn of a session with a runner that raises: the stored history is empty before and
  empty after, so it has not grown by one.
\<close>

theorem failed_first_turn_keeps_history_empty:
  "history_of (start ''key'' world0) = [] \<and>
   snd (failing_runner (session_agent (start ''key'' world0))
          (history_of (start ''key'' world0) @ [Entry User (msg_content hello)])
          (session_config (start ''key'' world0))) = Inl (Exception ''Connection error.'') \<and>
   history_of (main failing_runner hello (start ''key'' world0)) = [] \<and>
   length (history_of (main failing_runner hello (start ''key'' world0)))
     \<noteq> length (history_of (start ''key'' world0)) + 1"
proof -
  have f: "snd (failing_runner (session_agent (start ''key'' world0))
          (history_of (start ''key'' world0) @ [Entry User (msg_content hello)])
          (session_config (start ''key'' world0))) = Inl (Exception ''Connection error.'')"
    by (simp add: failing_runner_def)
  have "history_of (main failing_runner hello (start ''key'' world0)) = []"
    using f start_history start_allocated by (rule main_failure_empty)
  then show ?thesis using f by (simp add: start_history)
qed

text \<open>
  C2. In every turn in which the runner returns, the history stored in the session grows by
  exactly two entries: first the user entry with the text of the incoming message, then the
  assistant entry with the runner's final output.
\<close>

theorem successful_turn_appends_user_then_assistant:
  assumes "snd (Runner_run (session_agent s) (history_of s @ [Entry User (msg_content message)])
             (session_config s)) = Inr final_output"
  shows "history_of (main Runner_run message s) =
           history_of s @ [Entry User (msg_content message), Entry Assistant final_output] \<and>
         length (history_of (main Runner_run message s)) = length (history_of s) + 2"
  using assms by (simp add: main_success_history)

theorem successful_turn_appends_user_then_assistant_witness:
  "snd (ok_runner (session_agent (start ''key'' world0))
          (history_of (start ''key'' world0) @ [Entry User (msg_content hello)])
          (session_config (start ''key'' world0))) = Inr ''ok'' \<and>
   history_of (main ok_runner hello (start ''key'' world0)) =
     [Entry User ''hi'', Entry Assistant ''ok'']"
proof -
  have h: "snd (ok_runner (session_agent (start ''key'' world0))
          (history_of (start ''key'' world0) @ [Entry User (msg_content hello)])
          (session_config (start ''key'' world0))) = Inr ''ok''"
    by (simp add: ok_runner_def)
  show ?thesis
    using h successful_turn_appends_user_then_assistant
      [where Runner_run = ok_runner and s = "start ''key'' world0" and message = hello
         and final_output = "''ok''"]
    by (simp add: start_history hello_def)
qed

text \<open>
  C3. The claim: when the API-key variable is unset, initialisation raises a configuration
  error before any agent is constructed and no welcome message is sent; when it is set,
  startup proceeds. The test of the source is \<^verbatim>\<open>if not gemini_api_key\<close>, which the empty
  string fails as \<^verbatim>\<open>None\<close> does, so a variable set to the empty string does not let the
  session start. As amended: when the variable is unset or empty, the \<^verbatim>\<open>ValueError\<close> is
  raised and the world is untouched, so no agent is stored and no message is sent; when it
  is set to a string that is not empty, \<^verbatim>\<open>start\<close> runs, stores the triage agent and sends
  the welcome message.
\<close>

theorem api_key_required:
  "session_start None s = (Some (ValueError key_missing_text), s) \<and>
   session_start (Some []) s = (Some (ValueError key_missing_text), s) \<and>
   (gemini_api_key \<noteq> [] \<longrightarrow>
      session_start (Some gemini_api_key) s = (None, start gemini_api_key s) \<and>
      session_agent (start gemini_api_key s) = Some (triage_agent gemini_api_key) \<and>
      ui (start gemini_api_key s) = ui s @ [welcome_message])"
  by (simp add: session_start_def module_body_def start_fields)

theorem api_key_required_witness:
  "''key'' \<noteq> [] \<and>
   session_start (Some ''key'') world0 = (None, start ''key'' world0) \<and>
   session_agent (start ''key'' world0) = Some (triage_agent ''key'') \<and>
   ui (start ''key'' world0) = [welcome_message]"
  using api_key_required [of world0 "''key''"] by (simp add: world0_def)

text \<open>
  C3, the claim as stated: with the variable set, to the empty string, the module body
  raises; no agent is stored and no message is sent.
\<close>

theorem empty_api_key_aborts_startup:
  "fst (session_start (Some []) world0) \<noteq> None \<and>
   session_agent (snd (session_start (Some []) world0)) = None \<and>
   ui (snd (session_start (Some []) world0)) = []"
  by (simp add: session_start_def module_body_def world0_def)

text \<open>
  C4. In every turn in which the runner raises, the content of the placeholder message (the
  message sent at position \<open>length (ui s)\<close>) is replaced by a notice that begins with the
  warning sign and \<^verbatim>\<open>Error:\<close> and continues with the text of the error, and the error is
  printed: the last line of the turn on standard output is the cross mark, \<^verbatim>\<open>Error:\<close> and the
  same text.
\<close>

theorem failed_turn_shows_and_logs_error:
  assumes "snd (Runner_run (session_agent s) (history_of s @ [Entry User (msg_content message)])
             (session_config s)) = Inl e"
  shows "msg_content (ui (main Runner_run message s) ! length (ui s)) =
           warning_sign @ '' Error: '' @ str_exn e \<and>
         prefix (warning_sign @ '' Error:'')
           (msg_content (ui (main Runner_run message s) ! length (ui s))) \<and>
         (\<exists>ls. stdout (main Runner_run message s) =
            stdout s @ ls @ [Line (cross_mark @ '' Error: '' @ str_exn e)])"
  using main_failure_ui [where R = Runner_run and s = s and m = message and e = e, OF assms]
    main_failure_stdout [where R = Runner_run and s = s and m = message and e = e, OF assms]
  by simp

theorem failed_turn_shows_and_logs_error_witness:
  "snd (failing_runner (session_agent (start ''key'' world0))
          (history_of (start ''key'' world0) @ [Entry User (msg_content hello)])
          (session_config (start ''key'' world0))) = Inl (Exception ''Connection error.'') \<and>
   msg_content (ui (main failing_runner hello (start ''key'' world0)) ! 1) =
     warning_sign @ '' Error: Connection error.''"
proof -
  have h: "snd (failing_runner (session_agent (start ''key'' world0))
          (history_of (start ''key'' world0) @ [Entry User (msg_content hello)])
          (session_config (start ''key'' world0))) = Inl (Exception ''Connection error.'')"
    by (simp add: failing_runner_def)
  show ?thesis
    using h failed_turn_shows_and_logs_error
      [where Runner_run = failing_runner and s = "start ''key'' world0" and message = hello
         and e = "Exception ''Connection error.''"]
    by (simp add: start_fields world0_def)
qed

text \<open>
  C5. For every incoming message the effects of the handler begin, in this order, with:
  the thinking placeholder is sent to the UI; the user entry with the text of the message
  is appended to the history list; the runner is invoked with the agent of the session, the
  history with the new user entry at its end, and the run configuration of the session.
\<close>

theorem turn_begins_with_placeholder_append_run:
  "prefix
     (trace s @
      [Sent (length (ui s)) thinking_message,
       Appended (fst (load_history s)) (Entry User (msg_content message)),
       Ran (session_agent s) (history_of s @ [Entry User (msg_content message)]) (session_config s)])
     (trace (main Runner_run message s))"
  by (rule main_trace)

text \<open>
  C6. In every turn in which the runner returns, the content of the placeholder message is
  replaced by the runner's final output, and the updated history is stored in the session:
  the key of the session points to the list the handler has worked on, and that list is the
  former history followed by the user entry and the assistant entry.
\<close>

theorem successful_turn_shows_output_and_persists:
  assumes "snd (Runner_run (session_agent s) (history_of s @ [Entry User (msg_content message)])
             (session_config s)) = Inr final_output"
  shows "msg_content (ui (main Runner_run message s) ! length (ui s)) = final_output \<and>
         session_chat_history (main Runner_run message s) = Some (fst (load_history s)) \<and>
         heap (main Runner_run message s) (fst (load_history s)) =
           history_of s @ [Entry User (msg_content message), Entry Assistant final_output]"
proof -
  note shown = main_success_ui
    [where R = Runner_run and s = s and m = message and out = final_output, OF assms]
  note stored = main_success_session
    [where R = Runner_run and s = s and m = message and out = final_output, OF assms]
  note grown = main_success_history
    [where R = Runner_run and s = s and m = message and out = final_output, OF assms]
  from grown stored
  have "heap (main Runner_run message s) (fst (load_history s)) =
          history_of s @ [Entry User (msg_content message), Entry Assistant final_output]"
    by (simp add: history_of_def [of "main Runner_run message s"])
  with shown stored show ?thesis by simp
qed

theorem successful_turn_shows_output_and_persists_witness:
  "snd (refund_runner (session_agent (start ''key'' world0))
          (history_of (start ''key'' world0) @ [Entry User (msg_content refund_question)])
          (session_config (start ''key'' world0))) = Inr ''Your refund is on its way.'' \<and>
   msg_content (ui (main refund_runner refund_question (start ''key'' world0)) ! 1) =
     ''Your refund is on its way.'' \<and>
   session_chat_history (main refund_runner refund_question (start ''key'' world0)) = Some 1"
proof -
  have h: "snd (refund_runner (session_agent (start ''key'' world0))
          (history_of (start ''key'' world0) @ [Entry User (msg_content refund_question)])
          (session_config (start ''key'' world0))) = Inr ''Your refund is on its way.''"
    by (simp add: refund_runner_def)
  show ?thesis
    using h successful_turn_shows_output_and_persists
      [where Runner_run = refund_runner and s = "start ''key'' world0"
         and message = refund_question and final_output = "''Your refund is on its way.''"]
    by (simp add: start_fields world0_def load_history_def)
qed

text \<open>
  C7. At every handoff the notifier sends one message of author System whose content
  contains \<^verbatim>\<open>Handing off to <name>...\<close> for the name of the agent it is given, and prints the
  same sentence between two lines of dashes. It returns nothing but the world, and decides
  nothing: the session (agent, configuration, history) and the lists are as before. The
  handoffs of the triage agent are exactly two, to the billing agent and to the refund agent
  in this order, and the notifier of each is given that same delegate.
\<close>

theorem handoff_notifier_and_delegates:
  "(\<exists>before after.
      ui (on_handoff agent s) =
        ui s @ [\<lparr>msg_content = before @ ''Handing off to '' @ name agent @ ''...'' @ after,
                 msg_author = Some ''System''\<rparr>]) \<and>
   stdout (on_handoff agent s) =
     stdout s @ [Line dashes, Line (''Handing off to '' @ name agent @ ''...''), Line dashes] \<and>
   session_agent (on_handoff agent s) = session_agent s \<and>
   session_config (on_handoff agent s) = session_config s \<and>
   session_chat_history (on_handoff agent s) = session_chat_history s \<and>
   heap (on_handoff agent s) = heap s \<and>
   handoffs (triage_agent k) =
     [Handoff (billing_agent k) (billing_agent k), Handoff (refund_agent k) (refund_agent k)] \<and>
   map target (handoffs (triage_agent k)) = [billing_agent k, refund_agent k] \<and>
   map notifies (handoffs (triage_agent k)) = map target (handoffs (triage_agent k)) \<and>
   name (billing_agent k) = ''Billing Agent'' \<and> name (refund_agent k) = ''Refund Agent''"
proof -
  have "handoff_notice (name agent) =
      (arrows @ '' **'') @ ''Handing off to '' @ name agent @ ''...'' @
      (''**'' @ [CHR 0x0A, CHR 0x0A] @ ''I'' @ [CHR 0x27] @ ''m transferring your request to our ''
        @ lower (name agent) @ '' '' @ ''who will be able to better assist you.'')"
    by (simp add: handoff_notice_def)
  then have "\<exists>before after.
      ui (on_handoff agent s) =
        ui s @ [\<lparr>msg_content = before @ ''Handing off to '' @ name agent @ ''...'' @ after,
                 msg_author = Some ''System''\<rparr>]"
    unfolding on_handoff_ui by blast
  then show ?thesis
    by (simp add: on_handoff_stdout triage_agent_def billing_agent_def refund_agent_def)
qed

text \<open>
  C8. Whatever the world before, also one with a history that is not empty, a session start
  leaves the session with the triage agent as its agent, the constructed configuration and
  an empty history; a second session start leaves the session as the first did.
\<close>

theorem start_resets_session:
  "session_agent (start k s) = Some (triage_agent k) \<and>
   session_config (start k s) = Some (config k) \<and>
   history_of (start k s) = [] \<and>
   session_agent (start k (start k s)) = session_agent (start k s) \<and>
   session_config (start k (start k s)) = session_config (start k s) \<and>
   history_of (start k (start k s)) = history_of (start k s)"
  by (simp add: start_fields start_history)

text \<open>
  C9. The claim: across every operation of a session the stored history is append-only, so
  that the history of any reachable state extends that of every earlier state. A session
  start is an operation of the session and, as C8 says, empties the history: after a start
  and one successful turn, a second start leaves a history that does not extend the two
  entries stored before. As amended: across any sequence
  of message turns the stored history of the earlier state is a prefix of that of the later
  state, so no entry is reordered, removed or modified; a successful turn appends exactly
  the user entry and then the assistant entry; a failed turn appends no assistant entry and
  nothing but, at most, the user entry.
\<close>

theorem history_append_only_across_turns:
  assumes "list_all is_message evs"
  shows "prefix (history_of s) (history_of (run_events k evs s)) \<and>
         (\<forall>Runner_run message final_output.
            snd (Runner_run (session_agent s) (history_of s @ [Entry User (msg_content message)])
                   (session_config s)) = Inr final_output \<longrightarrow>
            history_of (main Runner_run message s) =
              history_of s @ [Entry User (msg_content message), Entry Assistant final_output]) \<and>
         (\<forall>Runner_run message e.
            snd (Runner_run (session_agent s) (history_of s @ [Entry User (msg_content message)])
                   (session_config s)) = Inl e \<longrightarrow>
            prefix (history_of (main Runner_run message s))
              (history_of s @ [Entry User (msg_content message)]))"
  using assms main_success_history main_failure_between(2)
  by (simp add: run_events_prefix)

theorem history_append_only_across_turns_witness:
  "list_all is_message [Chat_message ok_runner hello, Chat_message failing_runner hello] \<and>
   prefix (history_of (start ''key'' world0))
     (history_of (run_events ''key''
        [Chat_message ok_runner hello, Chat_message failing_runner hello] (start ''key'' world0))) \<and>
   history_of (main ok_runner hello (start ''key'' world0)) =
     [Entry User ''hi'', Entry Assistant ''ok''] \<and>
   prefix (history_of (main failing_runner hello (start ''key'' world0))) [Entry User ''hi'']"
proof -
  let ?evs = "[Chat_message ok_runner hello, Chat_message failing_runner hello]"
  let ?s = "start ''key'' world0"
  have l: "list_all is_message ?evs" by simp
  note t = history_append_only_across_turns [OF l, of ?s "''key''"]
  have ok: "snd (ok_runner (session_agent ?s) (history_of ?s @ [Entry User (msg_content hello)])
              (session_config ?s)) = Inr ''ok''"
    by (simp add: ok_runner_def)
  have bad: "snd (failing_runner (session_agent ?s) (history_of ?s @ [Entry User (msg_content hello)])
              (session_config ?s)) = Inl (Exception ''Connection error.'')"
    by (simp add: failing_runner_def)
  from t have "prefix (history_of ?s) (history_of (run_events ''key'' ?evs ?s))"
    by (rule conjunct1)
  moreover from t ok have "history_of (main ok_runner hello ?s) =
      history_of ?s @ [Entry User (msg_content hello), Entry Assistant ''ok'']"
    by blast
  moreover from t bad have "prefix (history_of (main failing_runner hello ?s))
      (history_of ?s @ [Entry User (msg_content hello)])"
    by blast
  ultimately show ?thesis
    using l by (simp add: start_history hello_def)
qed

text \<open>
  C9, the claim as stated: the history stored after a start, a successful turn and a second
  start does not extend the history stored before the second start.
\<close>

theorem start_discards_history:
  "\<not> prefix
       (history_of (run_events ''key'' [Chat_start, Chat_message ok_runner hello] world0))
       (history_of (run_events ''key'' [Chat_start, Chat_message ok_runner hello, Chat_start] world0))"
proof -
  have "snd (ok_runner (session_agent (start ''key'' world0))
          (history_of (start ''key'' world0) @ [Entry User (msg_content hello)])
          (session_config (start ''key'' world0))) = Inr ''ok''"
    by (simp add: ok_runner_def)
  then have "history_of (main ok_runner hello (start ''key'' world0)) =
      history_of (start ''key'' world0) @ [Entry User (msg_content hello), Entry Assistant ''ok'']"
    by (rule main_success_history)
  then show ?thesis by (simp add: start_history)
qed

text \<open>
  C10. For every invocation of the message handler, whether the runner returns or raises,
  the agent and the run configuration of the session are afterwards what they were before,
  and the only key that the handler writes to the session during the turn is
  \<^verbatim>\<open>chat_history\<close>.
\<close>

theorem main_writes_only_chat_history:
  "session_agent (main Runner_run message s) = session_agent s \<and>
   session_config (main Runner_run message s) = session_config s \<and>
   set (session_writes (drop (length (trace s)) (trace (main Runner_run message s))))
     \<subseteq> {''chat_history''}"
proof -
  have "prefix (trace s) (trace (main Runner_run message s))"
    using main_trace [of s message Runner_run] by (rule append_prefixD)
  then obtain es where es: "trace (main Runner_run message s) = trace s @ es"
    by (auto simp: prefix_def)
  have "session_writes es =
     (case snd (Runner_run (session_agent s) (history_of s @ [Entry User (msg_content message)])
         (session_config s)) of Inl e \<Rightarrow> [] | Inr out \<Rightarrow> [''chat_history''])"
    using main_session_writes [of Runner_run message s] by (simp add: es)
  then show ?thesis
    by (simp add: main_fields es split: sum.splits)
qed

end
